theory Spec2Isabelle
  imports Complex_Main "HOL-Library.Multiset"
begin

section \<open>Constants of \<^verbatim>\<open>my_model_mps.py\<close>\<close>

definition TRAIN_SIZE :: nat where "TRAIN_SIZE = 10000"
definition TEST_SIZE :: nat where "TEST_SIZE = 5000"
definition N_QUBITS :: nat where "N_QUBITS = 16"
definition N_EPOCHS :: nat where "N_EPOCHS = 3000"
definition BATCH_SIZE :: nat where "BATCH_SIZE = 200"

section \<open>Exceptions\<close>

text \<open>
  Every exception the modelled code can raise is a value. A computation that can raise
  returns \<open>py_error + 'a\<close>, with \<open>Inl\<close> for the exception.
\<close>

datatype py_error =
    UnboundLocalError
  | NameError
  | ZeroDivisionError
  | ValueError
  | IndexError
  | TypeError

section \<open>The numpy operations used by the batching code\<close>

text \<open>
  A two-dimensional array is the list of its rows, a one-dimensional array the list of
  its entries. Array entries are floats in the source and reals here.

  \<^verbatim>\<open>np.column_stack([x, y])\<close> with \<open>x\<close> two-dimensional and \<open>y\<close> one-dimensional appends
  \<open>y\<close> as a last column; the row counts must agree.
\<close>

definition column_stack :: "real list list \<Rightarrow> real list \<Rightarrow> py_error + real list list" where
  "column_stack x y =
     (if length x \<noteq> length y then Inl ValueError
      else Inr (map2 (\<lambda>f l. f @ [l]) x y))"

text \<open>
  The global generator of \<^verbatim>\<open>np.random\<close> is the stream of the interval draws it will
  produce: \<open>g 0\<close> is the next one. \<^verbatim>\<open>np.random.shuffle\<close> permutes the rows in place
  by the swaps of Fisher and Yates: for \<open>i\<close> from \<open>n - 1\<close> down to \<open>1\<close> it draws \<open>j\<close> in
  \<open>[0, i]\<close> and exchanges rows \<open>i\<close> and \<open>j\<close>.
\<close>

type_synonym rng = "nat \<Rightarrow> nat"

primrec shuffle_from :: "nat \<Rightarrow> rng \<Rightarrow> 'a list \<Rightarrow> 'a list \<times> rng" where
  "shuffle_from 0 g xs = (xs, g)"
| "shuffle_from (Suc i) g xs =
     (let j = g 0 mod Suc (Suc i)
      in shuffle_from i (\<lambda>k. g (Suc k)) (xs[Suc i := xs ! j, j := xs ! Suc i]))"

definition np_random_shuffle :: "rng \<Rightarrow> 'a list \<Rightarrow> 'a list \<times> rng" where
  "np_random_shuffle g xs = shuffle_from (length xs - 1) g xs"

text \<open>The order in which a shuffle of \<open>n\<close> rows visits the row indices.\<close>

definition shuffle_perm :: "rng \<Rightarrow> nat \<Rightarrow> nat list" where
  "shuffle_perm g n = fst (np_random_shuffle g [0..<n])"

text \<open>
  \<^verbatim>\<open>np.split(ary, sections)\<close> with an integer \<open>sections\<close> tests
  \<^verbatim>\<open>N % sections\<close> first, which divides by zero when \<open>sections\<close> is \<open>0\<close>, raises
  \<open>ValueError\<close> when the division is not exact, and otherwise cuts the array into
  \<open>sections\<close> consecutive pieces of equal length.
\<close>

definition chunks_of :: "'a list \<Rightarrow> nat \<Rightarrow> 'a list list" where
  "chunks_of ary sections =
     map (\<lambda>k. take (length ary div sections) (drop (k * (length ary div sections)) ary))
       [0..<sections]"

definition np_split :: "'a list \<Rightarrow> nat \<Rightarrow> py_error + 'a list list" where
  "np_split ary sections =
     (if sections = 0 then Inl ZeroDivisionError
      else if length ary mod sections \<noteq> 0 then Inl ValueError
      else Inr (chunks_of ary sections))"

section \<open>\<^verbatim>\<open>Batch_and_Shuffle\<close>\<close>

text \<open>
  \<^verbatim>\<open>
  def Batch_and_Shuffle(x,y):
    z = int(len(x) / BATCH_SIZE)
    data = np.column_stack([x,y])
    np.random.shuffle(data)
    return np.split(data[:,0:N_QUBITS],z), np.split(data[:,-1],z),z
  \<close>
  The generator is global state: the function takes it and returns it, also when an
  exception leaves the function.
\<close>

definition Batch_and_Shuffle ::
  "rng \<Rightarrow> real list list \<Rightarrow> real list \<Rightarrow>
     (py_error + (real list list list \<times> real list list \<times> nat)) \<times> rng" where
  "Batch_and_Shuffle g x y =
     (let z = length x div BATCH_SIZE in
      case column_stack x y of
        Inl e \<Rightarrow> (Inl e, g)
      | Inr data0 \<Rightarrow>
          (case np_random_shuffle g data0 of
             (data, g') \<Rightarrow>
               (case np_split (map (take N_QUBITS) data) z of
                  Inl e \<Rightarrow> (Inl e, g')
                | Inr fs \<Rightarrow>
                    (case np_split (map last data) z of
                       Inl e \<Rightarrow> (Inl e, g')
                     | Inr ls \<Rightarrow> (Inr (fs, ls, z), g')))))"

section \<open>The predictor, the optimizer and the metric functions\<close>

text \<open>
  The circuit simulator (a PennyLane \<^verbatim>\<open>qnode\<close>), reverse-mode differentiation
  (\<^verbatim>\<open>jax.value_and_grad\<close>) and the Adam optimizer (\<^verbatim>\<open>opt_update\<close>,
  \<^verbatim>\<open>get_params\<close>) are library code. They are parameters of the model: \<open>'w\<close> is the
  type of a parameter tensor (a gradient has the same type), \<open>'s\<close> the type of an
  optimizer state. A scalar computed by \<^verbatim>\<open>jax.numpy\<close> is a \<open>real option\<close>, where
  \<open>None\<close> is the \<open>nan\<close> that the mean of an empty array gives.
\<close>

record ('w, 's) jax_ops =
  qnode :: "real list \<Rightarrow> 'w \<Rightarrow> real"
  jax_grad :: "('w \<Rightarrow> py_error + real option) \<Rightarrow> 'w \<Rightarrow> 'w"
  opt_update :: "nat \<Rightarrow> 'w \<Rightarrow> 's \<Rightarrow> 's"
  get_params :: "'s \<Rightarrow> 'w"

text \<open>
  \<^verbatim>\<open>Circuit\<close> is the \<^verbatim>\<open>qnode\<close> under \<^verbatim>\<open>jax.vmap\<close> with \<^verbatim>\<open>in_axes=[0,None]\<close>: it maps
  over the rows of \<open>x\<close> and shares \<open>w\<close>.
\<close>

definition Circuit :: "('w, 's) jax_ops \<Rightarrow> real list list \<Rightarrow> 'w \<Rightarrow> real list" where
  "Circuit ops x w = map (\<lambda>r. qnode ops r w) x"

text \<open>
  An elementwise operation on two one-dimensional arrays broadcasts an array of length
  one and refuses any other pair of different lengths.
\<close>

definition broadcast2 ::
  "(real \<Rightarrow> real \<Rightarrow> 'b) \<Rightarrow> real list \<Rightarrow> real list \<Rightarrow> py_error + 'b list" where
  "broadcast2 f a b =
     (if length a = length b then Inr (map2 f a b)
      else if length a = 1 then Inr (map (f (hd a)) b)
      else if length b = 1 then Inr (map (\<lambda>u. f u (hd b)) a)
      else Inl TypeError)"

definition jnp_mean :: "real list \<Rightarrow> real option" where
  "jnp_mean xs = (if xs = [] then None else Some (sum_list xs / real (length xs)))"

text \<open>
  \<^verbatim>\<open>
  def Loss(w,x,y):
    pred = Circuit(x,w)
    return jax.numpy.mean((pred - y) ** 2)

  def Accuracy(w,x,y):
    pred = Circuit(x,w)
    return jax.numpy.mean(jax.numpy.sign(pred) == y)
  \<close>
\<close>

definition Loss ::
  "('w, 's) jax_ops \<Rightarrow> 'w \<Rightarrow> real list list \<Rightarrow> real list \<Rightarrow> py_error + real option" where
  "Loss ops w x y =
     (let pred = Circuit ops x w in
      case broadcast2 (\<lambda>p l. (p - l)\<^sup>2) pred y of
        Inl e \<Rightarrow> Inl e
      | Inr d \<Rightarrow> Inr (jnp_mean d))"

definition Accuracy ::
  "('w, 's) jax_ops \<Rightarrow> 'w \<Rightarrow> real list list \<Rightarrow> real list \<Rightarrow> py_error + real option" where
  "Accuracy ops w x y =
     (let pred = Circuit ops x w in
      case broadcast2 (\<lambda>p l. sgn p = l) pred y of
        Inl e \<Rightarrow> Inl e
      | Inr hits \<Rightarrow> Inr (jnp_mean (map (\<lambda>h. if h then 1 else 0) hits)))"

text \<open>
  \<^verbatim>\<open>jax.value_and_grad(f, argnums=0)(w, ...)\<close> evaluates \<open>f\<close> and its gradient at the
  same point \<open>w\<close>.
\<close>

definition value_and_grad ::
  "('w, 's) jax_ops \<Rightarrow> ('w \<Rightarrow> py_error + real option) \<Rightarrow> 'w \<Rightarrow>
     py_error + (real option \<times> 'w)" where
  "value_and_grad ops f w =
     (case f w of Inl e \<Rightarrow> Inl e | Inr v \<Rightarrow> Inr (v, jax_grad ops f w))"

section \<open>\<^verbatim>\<open>Train_Step\<close>\<close>

text \<open>
  \<^verbatim>\<open>
  def Train_Step(stepid, opt_state,train_f,train_t):
    current_w = get_params(opt_state)
    loss_value, grads = jax.value_and_grad(Loss,argnums=0)(current_w,train_f,train_t)
    acc_value = Accuracy(current_w,train_f,train_t)
    opt_state = opt_update(stepid, grads, opt_state)
    return loss_value,acc_value, opt_state
  \<close>
\<close>

definition Train_Step ::
  "('w, 's) jax_ops \<Rightarrow> nat \<Rightarrow> 's \<Rightarrow> real list list \<Rightarrow> real list \<Rightarrow>
     py_error + (real option \<times> real option \<times> 's)" where
  "Train_Step ops stepid opt_state train_f train_t =
     (let current_w = get_params ops opt_state in
      case value_and_grad ops (\<lambda>w. Loss ops w train_f train_t) current_w of
        Inl e \<Rightarrow> Inl e
      | Inr (loss_value, grads) \<Rightarrow>
          (case Accuracy ops current_w train_f train_t of
             Inl e \<Rightarrow> Inl e
           | Inr acc_value \<Rightarrow>
               Inr (loss_value, acc_value, opt_update ops stepid grads opt_state)))"

text \<open>
  The same three functions as \<^verbatim>\<open>test.py\<close> writes them inside \<^verbatim>\<open>QuantumModel\<close>
  (\<^verbatim>\<open>loss_fn\<close>, \<^verbatim>\<open>acc_fn\<close>, \<^verbatim>\<open>train_step\<close>), over its own \<^verbatim>\<open>circuit\<close>.
\<close>

definition loss_fn ::
  "('w, 's) jax_ops \<Rightarrow> 'w \<Rightarrow> real list list \<Rightarrow> real list \<Rightarrow> py_error + real option" where
  "loss_fn ops w x y =
     (let pred = map (\<lambda>r. qnode ops r w) x in
      case broadcast2 (\<lambda>p l. (p - l)\<^sup>2) pred y of
        Inl e \<Rightarrow> Inl e
      | Inr d \<Rightarrow> Inr (jnp_mean d))"

definition acc_fn ::
  "('w, 's) jax_ops \<Rightarrow> 'w \<Rightarrow> real list list \<Rightarrow> real list \<Rightarrow> py_error + real option" where
  "acc_fn ops w x y =
     (let pred = map (\<lambda>r. qnode ops r w) x in
      case broadcast2 (\<lambda>p l. sgn p = l) pred y of
        Inl e \<Rightarrow> Inl e
      | Inr hits \<Rightarrow> Inr (jnp_mean (map (\<lambda>h. if h then 1 else 0) hits)))"

definition train_step ::
  "('w, 's) jax_ops \<Rightarrow> nat \<Rightarrow> 's \<Rightarrow> real list list \<Rightarrow> real list \<Rightarrow>
     py_error + (real option \<times> real option \<times> 's)" where
  "train_step ops stepid opt_state x y =
     (let current_w = get_params ops opt_state in
      case value_and_grad ops (\<lambda>w. loss_fn ops w x y) current_w of
        Inl e \<Rightarrow> Inl e
      | Inr (loss_value, grads) \<Rightarrow>
          (case acc_fn ops current_w x y of
             Inl e \<Rightarrow> Inl e
           | Inr acc_value \<Rightarrow>
               Inr (loss_value, acc_value, opt_update ops stepid grads opt_state)))"

section \<open>\<^verbatim>\<open>Train_Model\<close>\<close>

text \<open>
  \<^verbatim>\<open>
  def Train_Model(x, y):
    z = int(len(x)/BATCH_SIZE)
    loss_data = np.zeros(N_EPOCHS*z)
    acc_data = np.zeros(N_EPOCHS*z)
    print("Training...")
    print("Epoch\tLoss\tAccuracy")
    step=0
    for i in range(N_EPOCHS):
      train_f, train_t, chunks = Batch_and_Shuffle(x, y)
      for j in range(chunks):
        loss_data[step],acc_data[step], opt_state = Train_Step(step, opt_state, train_f[j], train_t[j])
        step+=1
      if (i+1) % 100 == 0:
        print(f"{i+1}\t{loss_data[sgtep-1]:.3f}\t{acc_data[step-1]*100:.2f}%")
        np.save("mps_w/mps_weights_epcoh_"+ str(i+1) +".npy", get_params(opt_state))
    file_weights = "mps_w/final_mps_weights.npy"
    np.save(file_weights, get_params(opt_state))
    return opt_state, loss_data, acc_data
  \<close>
  The function assigns \<^verbatim>\<open>opt_state\<close>, so the name is local to it, and the module's
  \<^verbatim>\<open>opt_state = opt_init(weights)\<close> is not visible inside. The local variables that
  the loops update form a frame; a local that is not bound yet is \<open>None\<close>.
\<close>

record 's frame =
  l_step :: nat
  l_opt_state :: "'s option"
  l_loss_data :: "real option list"
  l_acc_data :: "real option list"

text \<open>
  What the function shares with the rest of the process: the generator of
  \<^verbatim>\<open>np.random\<close>, the lines printed so far, and the files saved so far.
\<close>

record 'w world =
  np_rng :: rng
  stdout :: "string list"
  files :: "(string \<times> 'w) list"

text \<open>
  The loop over the batches of one epoch. Python evaluates the arguments of the call
  from left to right, so an unbound \<^verbatim>\<open>opt_state\<close> is found before \<^verbatim>\<open>train_f[j]\<close>
  is read, and the three targets are assigned only after the call has returned.
\<close>

fun Train_Batches ::
  "('w, 's) jax_ops \<Rightarrow> real list list list \<Rightarrow> real list list \<Rightarrow> nat list \<Rightarrow> 's frame \<Rightarrow>
     py_error + 's frame" where
  "Train_Batches ops train_f train_t [] fr = Inr fr"
| "Train_Batches ops train_f train_t (j # js) fr =
     (case l_opt_state fr of
        None \<Rightarrow> Inl UnboundLocalError
      | Some opt_state \<Rightarrow>
          if length train_f \<le> j \<or> length train_t \<le> j then Inl IndexError
          else
            (case Train_Step ops (l_step fr) opt_state (train_f ! j) (train_t ! j) of
               Inl e \<Rightarrow> Inl e
             | Inr (loss_value, acc_value, opt_state') \<Rightarrow>
                 if length (l_loss_data fr) \<le> l_step fr \<or> length (l_acc_data fr) \<le> l_step fr
                 then Inl IndexError
                 else Train_Batches ops train_f train_t js
                        (fr\<lparr>l_loss_data := (l_loss_data fr)[l_step fr := loss_value],
                            l_acc_data := (l_acc_data fr)[l_step fr := acc_value],
                            l_opt_state := Some opt_state',
                            l_step := l_step fr + 1\<rparr>)))"

text \<open>
  The loop over the epochs. At a reporting point the format string reads
  \<^verbatim>\<open>loss_data[sgtep-1]\<close>; no local or global is called \<^verbatim>\<open>sgtep\<close>, so evaluating it
  raises \<open>NameError\<close> before anything is printed or saved.
\<close>

fun Train_Epochs ::
  "('w, 's) jax_ops \<Rightarrow> real list list \<Rightarrow> real list \<Rightarrow> nat list \<Rightarrow> 's frame \<Rightarrow> 'w world \<Rightarrow>
     (py_error + 's frame) \<times> 'w world" where
  "Train_Epochs ops x y [] fr wd = (Inr fr, wd)"
| "Train_Epochs ops x y (i # rest) fr wd =
     (case Batch_and_Shuffle (np_rng wd) x y of
        (Inl e, g') \<Rightarrow> (Inl e, wd\<lparr>np_rng := g'\<rparr>)
      | (Inr (train_f, train_t, chunks), g') \<Rightarrow>
          (case Train_Batches ops train_f train_t [0..<chunks] fr of
             Inl e \<Rightarrow> (Inl e, wd\<lparr>np_rng := g'\<rparr>)
           | Inr fr' \<Rightarrow>
               if (i + 1) mod 100 = 0 then (Inl NameError, wd\<lparr>np_rng := g'\<rparr>)
               else Train_Epochs ops x y rest fr' (wd\<lparr>np_rng := g'\<rparr>)))"

definition Train_Model ::
  "('w, 's) jax_ops \<Rightarrow> real list list \<Rightarrow> real list \<Rightarrow> 'w world \<Rightarrow>
     (py_error + ('s \<times> real option list \<times> real option list)) \<times> 'w world" where
  "Train_Model ops x y wd =
     (let z = length x div BATCH_SIZE;
          loss_data = replicate (N_EPOCHS * z) (Some 0);
          acc_data = replicate (N_EPOCHS * z) (Some 0);
          wd1 = wd\<lparr>stdout := stdout wd @
                  [''Training...'', ''Epoch'' @ [CHR 0x09] @ ''Loss'' @ [CHR 0x09] @ ''Accuracy'']\<rparr>;
          fr = \<lparr>l_step = 0, l_opt_state = None, l_loss_data = loss_data, l_acc_data = acc_data\<rparr>
      in case Train_Epochs ops x y [0..<N_EPOCHS] fr wd1 of
           (Inl e, wd2) \<Rightarrow> (Inl e, wd2)
         | (Inr fr', wd2) \<Rightarrow>
             (case l_opt_state fr' of
                None \<Rightarrow> (Inl UnboundLocalError, wd2)
              | Some opt_state \<Rightarrow>
                  (Inr (opt_state, l_loss_data fr', l_acc_data fr'),
                   wd2\<lparr>files := files wd2 @
                     [(''mps_w/final_mps_weights.npy'', get_params ops opt_state)]\<rparr>)))"

section \<open>\<^verbatim>\<open>Plot_ROC\<close>\<close>

text \<open>
  An n-dimensional array is its shape and its entries in row-major order.
  \<^verbatim>\<open>np.array(TEST_SIZE)\<close> is the zero-dimensional array of one number: its shape is
  the empty tuple. Assigning to \<^verbatim>\<open>a[i]\<close> needs a first axis of more than \<open>i\<close> rows, and
  the value written here has to fill the row. \<^verbatim>\<open>a.shape[k]\<close> indexes the shape tuple.
\<close>

record ndarray =
  shape :: "nat list"
  flat :: "real list"

definition np_array_scalar :: "real \<Rightarrow> ndarray" where
  "np_array_scalar v = \<lparr>shape = [], flat = [v]\<rparr>"

definition setitem :: "ndarray \<Rightarrow> nat \<Rightarrow> real list \<Rightarrow> py_error + ndarray" where
  "setitem a i v =
     (case shape a of
        [] \<Rightarrow> Inl IndexError
      | n # row \<Rightarrow>
          if n \<le> i then Inl IndexError
          else if length v = prod_list row
          then Inr (a\<lparr>flat := take (i * prod_list row) (flat a) @ v @
                              drop (Suc i * prod_list row) (flat a)\<rparr>)
          else Inl ValueError)"

definition shape_at :: "ndarray \<Rightarrow> nat \<Rightarrow> py_error + nat" where
  "shape_at a k = (if k < length (shape a) then Inr (shape a ! k) else Inl IndexError)"

definition np_reshape :: "ndarray \<Rightarrow> nat list \<Rightarrow> py_error + ndarray" where
  "np_reshape a newshape =
     (if prod_list newshape = length (flat a) then Inr (a\<lparr>shape := newshape\<rparr>)
      else Inl ValueError)"

text \<open>
  \<^verbatim>\<open>
  def Plot_ROC(w,x,y):
    depth = int(len(x) / BATCH_SIZE)
    new_x = np.split(x,depth)
    ps = np.array(TEST_SIZE)
    for i in range(depth):
      ps[i] = Circuit(new_x[i],w)
    predictions = np.reshape(ps, (ps.shape[0]*ps.shape[1], ps.shape[2]))
    fpr, tpr, threshold = roc_curve(y,predictions)
    auc = roc_auc_score(y,predictions)
    ...
  \<close>
  Everything from \<^verbatim>\<open>roc_curve\<close> on (scikit-learn, pandas and matplotlib calls) is the
  parameter \<open>report\<close>, applied to the labels and the reshaped predictions.
\<close>

fun Plot_ROC_loop ::
  "('w, 's) jax_ops \<Rightarrow> real list list list \<Rightarrow> 'w \<Rightarrow> nat list \<Rightarrow> ndarray \<Rightarrow>
     py_error + ndarray" where
  "Plot_ROC_loop ops new_x w [] ps = Inr ps"
| "Plot_ROC_loop ops new_x w (i # rest) ps =
     (if length new_x \<le> i then Inl IndexError
      else
        (case setitem ps i (Circuit ops (new_x ! i) w) of
           Inl e \<Rightarrow> Inl e
         | Inr ps' \<Rightarrow> Plot_ROC_loop ops new_x w rest ps'))"

definition Plot_ROC ::
  "('w, 's) jax_ops \<Rightarrow> (real list \<Rightarrow> ndarray \<Rightarrow> py_error + 'r) \<Rightarrow> 'w \<Rightarrow> real list list \<Rightarrow>
     real list \<Rightarrow> py_error + 'r" where
  "Plot_ROC ops report w x y =
     (let depth = length x div BATCH_SIZE in
      case np_split x depth of
        Inl e \<Rightarrow> Inl e
      | Inr new_x \<Rightarrow>
          (case Plot_ROC_loop ops new_x w [0..<depth] (np_array_scalar (real TEST_SIZE)) of
             Inl e \<Rightarrow> Inl e
           | Inr ps \<Rightarrow>
               (case shape_at ps 0 of
                  Inl e \<Rightarrow> Inl e
                | Inr s0 \<Rightarrow>
                    (case shape_at ps 1 of
                       Inl e \<Rightarrow> Inl e
                     | Inr s1 \<Rightarrow>
                         (case shape_at ps 2 of
                            Inl e \<Rightarrow> Inl e
                          | Inr s2 \<Rightarrow>
                              (case np_reshape ps [s0 * s1, s2] of
                                 Inl e \<Rightarrow> Inl e
                               | Inr predictions \<Rightarrow> report y predictions))))))"

section \<open>The training loop of \<^verbatim>\<open>test.py\<close>\<close>

text \<open>
  \<^verbatim>\<open>
  train_loss_data = np.zeros(N_EPOCHS)
  train_acc_data = np.zeros(N_EPOCHS)
  for i in range(N_EPOCHS):
    loss_temp = np.zeros(chunks)
    acc_temp = np.zeros(chunks)
    for j in range(chunks):
      loss_value,acc_value, opt_state = train_step(i,opt_state,train_dataframe[j],train_target_dataframe[j])
      loss_temp[j] = loss_value
      acc_temp[j] = acc_value
    train_loss_data[i] = jnp.average(loss_temp)
    train_acc_data[i] = jnp.average(acc_temp)
    if (i+1) % 100 == 0:
      print(f"{i+1}\t{loss_value:.3f}\t{acc_value*100:.2f}%")
  final_state = opt_state
  \<close>
  This is the training part of \<^verbatim>\<open>QuantumModel\<close>. The dataset, its split into
  \<^verbatim>\<open>train_dataframe\<close> and \<^verbatim>\<open>train_target_dataframe\<close>, the number \<^verbatim>\<open>chunks\<close> and the
  initial \<^verbatim>\<open>opt_state\<close> come from the lines before it and are arguments here. Here
  \<^verbatim>\<open>opt_state\<close> is bound before the loop; \<^verbatim>\<open>loss_value\<close> and \<^verbatim>\<open>acc_value\<close> are bound by
  the first step. A printed line is kept as the epoch number and the two values it
  formats.
\<close>

record 's qframe =
  q_opt_state :: 's
  q_loss_value :: "real option option"
  q_acc_value :: "real option option"
  q_loss_temp :: "real option list"
  q_acc_temp :: "real option list"
  q_train_loss_data :: "real option list"
  q_train_acc_data :: "real option list"
  q_printed :: "(nat \<times> real option \<times> real option) list"

text \<open>The average of an array of floats is \<open>nan\<close> when the array is empty or holds a \<open>nan\<close>.\<close>

definition jnp_average :: "real option list \<Rightarrow> real option" where
  "jnp_average xs = (case those xs of None \<Rightarrow> None | Some vs \<Rightarrow> jnp_mean vs)"

fun train_chunks ::
  "('w, 's) jax_ops \<Rightarrow> nat \<Rightarrow> real list list list \<Rightarrow> real list list \<Rightarrow> nat list \<Rightarrow>
     's qframe \<Rightarrow> py_error + 's qframe" where
  "train_chunks ops i train_dataframe train_target_dataframe [] fr = Inr fr"
| "train_chunks ops i train_dataframe train_target_dataframe (j # js) fr =
     (if length train_dataframe \<le> j \<or> length train_target_dataframe \<le> j then Inl IndexError
      else
        (case train_step ops i (q_opt_state fr) (train_dataframe ! j)
                (train_target_dataframe ! j) of
           Inl e \<Rightarrow> Inl e
         | Inr (loss_value, acc_value, opt_state') \<Rightarrow>
             if length (q_loss_temp fr) \<le> j \<or> length (q_acc_temp fr) \<le> j then Inl IndexError
             else train_chunks ops i train_dataframe train_target_dataframe js
                    (fr\<lparr>q_opt_state := opt_state',
                        q_loss_value := Some loss_value,
                        q_acc_value := Some acc_value,
                        q_loss_temp := (q_loss_temp fr)[j := loss_value],
                        q_acc_temp := (q_acc_temp fr)[j := acc_value]\<rparr>)))"

fun train_epochs ::
  "('w, 's) jax_ops \<Rightarrow> nat \<Rightarrow> real list list list \<Rightarrow> real list list \<Rightarrow> nat list \<Rightarrow>
     's qframe \<Rightarrow> py_error + 's qframe" where
  "train_epochs ops chunks train_dataframe train_target_dataframe [] fr = Inr fr"
| "train_epochs ops chunks train_dataframe train_target_dataframe (i # rest) fr =
     (case train_chunks ops i train_dataframe train_target_dataframe [0..<chunks]
             (fr\<lparr>q_loss_temp := replicate chunks (Some 0),
                 q_acc_temp := replicate chunks (Some 0)\<rparr>) of
        Inl e \<Rightarrow> Inl e
      | Inr fr1 \<Rightarrow>
          if length (q_train_loss_data fr1) \<le> i \<or> length (q_train_acc_data fr1) \<le> i
          then Inl IndexError
          else
            (let fr2 = fr1\<lparr>q_train_loss_data :=
                             (q_train_loss_data fr1)[i := jnp_average (q_loss_temp fr1)],
                           q_train_acc_data :=
                             (q_train_acc_data fr1)[i := jnp_average (q_acc_temp fr1)]\<rparr>
             in if (i + 1) mod 100 = 0
                then
                  (case q_loss_value fr2 of
                     None \<Rightarrow> Inl UnboundLocalError
                   | Some loss_value \<Rightarrow>
                       (case q_acc_value fr2 of
                          None \<Rightarrow> Inl UnboundLocalError
                        | Some acc_value \<Rightarrow>
                            train_epochs ops chunks train_dataframe train_target_dataframe rest
                              (fr2\<lparr>q_printed :=
                                     q_printed fr2 @ [(i + 1, loss_value, acc_value)]\<rparr>)))
                else train_epochs ops chunks train_dataframe train_target_dataframe rest fr2))"

definition QuantumModel_train ::
  "('w, 's) jax_ops \<Rightarrow> nat \<Rightarrow> nat \<Rightarrow> real list list list \<Rightarrow> real list list \<Rightarrow> 's \<Rightarrow>
     py_error + 's qframe" where
  "QuantumModel_train ops n_epochs chunks train_dataframe train_target_dataframe opt_state =
     train_epochs ops chunks train_dataframe train_target_dataframe [0..<n_epochs]
       \<lparr>q_opt_state = opt_state, q_loss_value = None, q_acc_value = None,
        q_loss_temp = [], q_acc_temp = [],
        q_train_loss_data = replicate n_epochs (Some 0),
        q_train_acc_data = replicate n_epochs (Some 0),
        q_printed = []\<rparr>"

section \<open>The metrics in the words of the specification\<close>

text \<open>
  The specification describes the loss as the mean squared error between the predictor
  output and the labels over the batch, and the accuracy as the fraction of samples where
  the sign of the prediction equals the label. These two definitions follow those words;
  they are compared with \<open>Loss\<close> and \<open>Accuracy\<close> below.
\<close>

definition mean_squared_error :: "real list \<Rightarrow> real list \<Rightarrow> real" where
  "mean_squared_error pred y =
     (\<Sum>(p, l)\<leftarrow>zip pred y. (p - l)\<^sup>2) / real (length pred)"

definition fraction_correct :: "real list \<Rightarrow> real list \<Rightarrow> real" where
  "fraction_correct pred y =
     real (length (filter (\<lambda>(p, l). sgn p = l) (zip pred y))) / real (length pred)"

section \<open>Concrete inputs\<close>

text \<open>
  A dataset of \<open>n\<close> rows of \<open>N_QUBITS\<close> features each, with labels all \<open>+1\<close>; a generator;
  a process that has printed and saved nothing; and the predictor that answers \<open>+1\<close> on
  every row, with an optimizer that leaves its state alone.
\<close>

definition rows :: "nat \<Rightarrow> real list list" where
  "rows n = replicate n (replicate N_QUBITS 0)"

definition labels :: "nat \<Rightarrow> real list" where
  "labels n = replicate n 1"

definition zero_rng :: rng where
  "zero_rng = (\<lambda>k. 0)"

definition world0 :: "nat world" where
  "world0 = \<lparr>np_rng = zero_rng, stdout = [], files = []\<rparr>"

definition plus_one_ops :: "(nat, nat) jax_ops" where
  "plus_one_ops =
     \<lparr>qnode = (\<lambda>r w. 1), jax_grad = (\<lambda>f w. w), opt_update = (\<lambda>i g s. s),
      get_params = (\<lambda>s. s)\<rparr>"

text \<open>A predictor that answers the first feature of the row.\<close>

definition first_feature_ops :: "(nat, nat) jax_ops" where
  "first_feature_ops =
     \<lparr>qnode = (\<lambda>r w. hd r), jax_grad = (\<lambda>f w. w), opt_update = (\<lambda>i g s. s),
      get_params = (\<lambda>s. s)\<rparr>"

text \<open>
  An optimizer whose state is the list of the step indices it has been given, so that a
  run shows which index each update call received.
\<close>

definition trace_ops :: "(nat, nat list) jax_ops" where
  "trace_ops =
     \<lparr>qnode = (\<lambda>r w. 1), jax_grad = (\<lambda>f w. w), opt_update = (\<lambda>i g s. s @ [i]),
      get_params = (\<lambda>s. 0)\<rparr>"

text \<open>
  The frame \<^verbatim>\<open>Train_Model\<close> would have at the start of its hundredth epoch on a dataset
  of one batch, had \<^verbatim>\<open>opt_state\<close> been bound: 99 steps done.
\<close>

definition frame_after_99 :: "nat frame" where
  "frame_after_99 =
     \<lparr>l_step = 99, l_opt_state = Some 7,
      l_loss_data = replicate N_EPOCHS (Some 0), l_acc_data = replicate N_EPOCHS (Some 0)\<rparr>"

text \<open>A reporter that would answer an area of \<open>1.0\<close> on whatever it is given.\<close>

definition area_one_report :: "real list \<Rightarrow> ndarray \<Rightarrow> py_error + real" where
  "area_one_report y predictions = Inr 1"

section \<open>Small runs of the model\<close>

text \<open>
  A shuffle of four rows with the draws \<open>0, 1, 2\<close>: rows 3 and 0 are exchanged, then rows
  2 and 1, then rows 1 and 0.
\<close>

lemma np_random_shuffle_example:
  "fst (np_random_shuffle (\<lambda>k. k) [10, 20, 30, 40 :: nat]) = [30, 40, 20, 10]"
  by code_simp

lemma np_split_example:
  "np_split [1, 2, 3, 4, 5, 6 :: nat] 3 = Inr [[1, 2], [3, 4], [5, 6]]
   \<and> np_split [1, 2, 3, 4, 5 :: nat] 2 = Inl ValueError
   \<and> np_split [1, 2, 3 :: nat] 0 = Inl ZeroDivisionError"
  by code_simp

text \<open>
  Four samples with predictions \<open>1, -1, 1/2, -2\<close> and labels \<open>1, 1, -1, -1\<close>: the squared
  errors are \<open>0, 4, 9/4, 1\<close> and two signs match.
\<close>

lemma Loss_Accuracy_example:
  "Loss first_feature_ops 0 [[1], [- 1], [1 / 2], [- 2]] [1, 1, - 1, - 1] = Inr (Some (29 / 16))
   \<and> Accuracy first_feature_ops 0 [[1], [- 1], [1 / 2], [- 2]] [1, 1, - 1, - 1] = Inr (Some (1 / 2))"
  by (simp add: Loss_def Accuracy_def Circuit_def broadcast2_def jnp_mean_def Let_def
      first_feature_ops_def power2_eq_square)

section \<open>Facts about shuffling and splitting\<close>

lemma shuffle_from_length: "length (fst (shuffle_from i g xs)) = length xs"
  by (induction i arbitrary: g xs) (simp_all add: Let_def)

lemma shuffle_from_mset:
  "i < length xs \<Longrightarrow> mset (fst (shuffle_from i g xs)) = mset xs"
proof (induction i arbitrary: g xs)
  case 0
  then show ?case by simp
next
  case (Suc i)
  let ?j = "g 0 mod Suc (Suc i)"
  have j: "?j < length xs"
    using Suc.prems by (meson Suc_leI less_le_trans mod_less_divisor zero_less_Suc)
  have "mset (xs[Suc i := xs ! ?j, ?j := xs ! Suc i]) = mset xs"
    using mset_swap [OF j Suc.prems] .
  moreover have "i < length (xs[Suc i := xs ! ?j, ?j := xs ! Suc i])"
    using Suc.prems by simp
  ultimately show ?case
    using Suc.IH by (simp add: Let_def)
qed

lemma shuffle_from_map:
  "i < length xs \<Longrightarrow>
     shuffle_from i g (map f xs) =
       (map f (fst (shuffle_from i g xs)), snd (shuffle_from i g xs))"
proof (induction i arbitrary: g xs)
  case 0
  then show ?case by simp
next
  case (Suc i)
  let ?j = "g 0 mod Suc (Suc i)"
  let ?ys = "xs[Suc i := xs ! ?j, ?j := xs ! Suc i]"
  have j: "?j < length xs"
    using Suc.prems by (meson Suc_leI less_le_trans mod_less_divisor zero_less_Suc)
  have swap: "(map f xs)[Suc i := map f xs ! ?j, ?j := map f xs ! Suc i] = map f ?ys"
    using j Suc.prems by (simp add: map_update)
  have "i < length ?ys"
    using Suc.prems by simp
  from Suc.IH [OF this] swap show ?case
    by (simp add: Let_def)
qed

lemma np_random_shuffle_length: "length (fst (np_random_shuffle g xs)) = length xs"
  by (simp add: np_random_shuffle_def shuffle_from_length)

lemma np_random_shuffle_mset: "mset (fst (np_random_shuffle g xs)) = mset xs"
  by (cases xs) (simp_all add: np_random_shuffle_def shuffle_from_mset)

lemma np_random_shuffle_map:
  "np_random_shuffle g (map f xs) =
     (map f (fst (np_random_shuffle g xs)), snd (np_random_shuffle g xs))"
proof (cases xs)
  case Nil
  then show ?thesis by (simp add: np_random_shuffle_def)
next
  case (Cons a as)
  then have "length xs - 1 < length xs" by simp
  from shuffle_from_map [OF this, of g f] show ?thesis
    by (simp add: np_random_shuffle_def)
qed

lemma shuffle_perm_mset: "mset (shuffle_perm g n) = mset [0..<n]"
  by (simp add: shuffle_perm_def np_random_shuffle_mset)

lemma shuffle_perm_set: "set (shuffle_perm g n) = {0..<n}"
  using shuffle_perm_mset [of g n] by (metis mset_eq_setD set_upt)

lemma shuffle_perm_distinct: "distinct (shuffle_perm g n)"
  using shuffle_perm_mset [of g n] by (metis distinct_upt mset_eq_imp_distinct_iff)

lemma shuffle_perm_length: "length (shuffle_perm g n) = n"
  by (simp add: shuffle_perm_def np_random_shuffle_length)

lemma np_random_shuffle_perm:
  "fst (np_random_shuffle g xs) = map (\<lambda>i. xs ! i) (shuffle_perm g (length xs))"
proof -
  have "np_random_shuffle g (map (\<lambda>i. xs ! i) [0..<length xs]) =
          (map (\<lambda>i. xs ! i) (fst (np_random_shuffle g [0..<length xs])),
           snd (np_random_shuffle g [0..<length xs]))"
    by (rule np_random_shuffle_map)
  then show ?thesis
    by (simp add: map_nth shuffle_perm_def)
qed

lemma chunks_of_length: "length (chunks_of ary s) = s"
  by (simp add: chunks_of_def)

lemma chunks_of_nth_length:
  assumes "k < s"
  shows "length (chunks_of ary s ! k) = length ary div s"
proof -
  let ?c = "length ary div s"
  have "Suc k * ?c \<le> s * ?c"
    using assms by (simp add: Suc_leI mult_le_mono1 del: mult_Suc)
  also have "\<dots> \<le> length ary"
    by simp
  finally have "k * ?c + ?c \<le> length ary"
    by simp
  then show ?thesis
    using assms by (simp add: chunks_of_def)
qed

lemma concat_chunks_take:
  "concat (map (\<lambda>k. take c (drop (k * c) xs)) [0..<s]) = take (s * c) xs"
proof (induction s)
  case 0
  then show ?case by simp
next
  case (Suc s)
  have "take (s * c) xs @ take c (drop (s * c) xs) = take (s * c + c) xs"
    by (simp add: take_add)
  with Suc show ?case
    by (simp add: add.commute)
qed

lemma chunks_of_concat:
  "length ary mod s = 0 \<Longrightarrow> concat (chunks_of ary s) = ary"
  by (simp add: chunks_of_def concat_chunks_take mod_0_imp_dvd)


lemma column_stack_nth:
  "length x = length y \<Longrightarrow> i < length x \<Longrightarrow>
     map2 (\<lambda>f l. f @ [l]) x y ! i = x ! i @ [y ! i]"
  by simp

lemma shuffled_features:
  assumes "length x = length y"
  shows "map (take N_QUBITS) (fst (np_random_shuffle g (map2 (\<lambda>f l. f @ [l]) x y))) =
           map (\<lambda>i. take N_QUBITS (x ! i @ [y ! i])) (shuffle_perm g (length x))"
proof -
  have "\<And>i. i \<in> set (shuffle_perm g (length x)) \<Longrightarrow> i < length x"
    by (simp add: shuffle_perm_set)
  then show ?thesis
    using assms by (simp add: np_random_shuffle_perm)
qed

lemma shuffled_labels:
  assumes "length x = length y"
  shows "map last (fst (np_random_shuffle g (map2 (\<lambda>f l. f @ [l]) x y))) =
           map (\<lambda>i. y ! i) (shuffle_perm g (length x))"
proof -
  have "\<And>i. i \<in> set (shuffle_perm g (length x)) \<Longrightarrow> i < length x"
    by (simp add: shuffle_perm_set)
  then show ?thesis
    using assms by (simp add: np_random_shuffle_perm)
qed

lemma Batch_and_Shuffle_eq:
  assumes "length x = length y"
  shows "fst (Batch_and_Shuffle g x y) =
     (if length x div BATCH_SIZE = 0 then Inl ZeroDivisionError
      else if length x mod (length x div BATCH_SIZE) \<noteq> 0 then Inl ValueError
      else Inr (chunks_of (map (\<lambda>i. take N_QUBITS (x ! i @ [y ! i])) (shuffle_perm g (length x)))
                  (length x div BATCH_SIZE),
                chunks_of (map (\<lambda>i. y ! i) (shuffle_perm g (length x))) (length x div BATCH_SIZE),
                length x div BATCH_SIZE))"
proof -
  obtain data g' where sh: "np_random_shuffle g (map2 (\<lambda>f l. f @ [l]) x y) = (data, g')"
    by (cases "np_random_shuffle g (map2 (\<lambda>f l. f @ [l]) x y)")
  have f: "map (take N_QUBITS) data =
             map (\<lambda>i. take N_QUBITS (x ! i @ [y ! i])) (shuffle_perm g (length x))"
    using shuffled_features [OF assms, of g] sh by simp
  have l: "map last data = map (\<lambda>i. y ! i) (shuffle_perm g (length x))"
    using shuffled_labels [OF assms, of g] sh by simp
  show ?thesis
    using assms sh
    by (simp add: Batch_and_Shuffle_def Let_def column_stack_def np_split_def f l shuffle_perm_length)
qed

lemma chunks_of_map_length:
  "map length (chunks_of ary s) = replicate s (length ary div s)"
proof (rule nth_equalityI)
  show "length (map length (chunks_of ary s)) = length (replicate s (length ary div s))"
    by (simp add: chunks_of_length)
next
  fix k assume "k < length (map length (chunks_of ary s))"
  then have k: "k < s" by (simp add: chunks_of_length)
  then show "map length (chunks_of ary s) ! k = replicate s (length ary div s) ! k"
    by (simp add: chunks_of_length chunks_of_nth_length)
qed

lemma batch_rows_vs_BATCH_SIZE:
  assumes "0 < n div BATCH_SIZE" and "n mod (n div BATCH_SIZE) = 0"
  shows "if n mod BATCH_SIZE = 0 then n div (n div BATCH_SIZE) = BATCH_SIZE
         else BATCH_SIZE < n div (n div BATCH_SIZE)"
proof -
  let ?z = "n div BATCH_SIZE"
  have B: "0 < BATCH_SIZE" by (simp add: BATCH_SIZE_def)
  have n: "n = ?z * (n div ?z)"
    using assms(2) by (simp add: mod_0_imp_dvd)
  show ?thesis
  proof (cases "n mod BATCH_SIZE = 0")
    case True
    then have "n = ?z * BATCH_SIZE" by (simp add: mod_0_imp_dvd)
    then have "n div ?z = BATCH_SIZE" using assms(1)
      by (metis nonzero_mult_div_cancel_left less_numeral_extra(3))
    with True show ?thesis by simp
  next
    case False
    have "?z * BATCH_SIZE < n"
      using False B by (metis div_mult_mod_eq less_add_same_cancel1 neq0_conv)
    then have "?z * BATCH_SIZE < ?z * (n div ?z)" using n by simp
    then have "BATCH_SIZE < n div ?z" using assms(1) by simp
    with False show ?thesis by simp
  qed
qed


lemma rows_length: "length (rows n) = n"
  by (simp add: rows_def)

lemma labels_length: "length (labels n) = n"
  by (simp add: labels_def)

lemma mset_map_shuffle_perm:
  "mset (map f (shuffle_perm g n)) = mset (map f [0..<n])"
proof -
  have "mset (map f (shuffle_perm g n)) = image_mset f (mset (shuffle_perm g n))"
    by simp
  also have "\<dots> = image_mset f (mset [0..<n])"
    by (simp only: shuffle_perm_mset)
  also have "\<dots> = mset (map f [0..<n])"
    by simp
  finally show ?thesis .
qed

lemma stacked_rows_by_index:
  assumes "length x = length y"
  shows "map (\<lambda>i. take N_QUBITS (x ! i @ [y ! i])) [0..<length x] =
           map2 (\<lambda>f l. take N_QUBITS (f @ [l])) x y"
  using assms by (intro nth_equalityI) simp_all

lemma stacked_rows_width:
  assumes "length x = length y" and "list_all (\<lambda>r. length r = N_QUBITS) x"
  shows "map2 (\<lambda>f l. take N_QUBITS (f @ [l])) x y = x"
  using assms by (intro nth_equalityI) (simp_all add: list_all_length)

lemma labels_by_index:
  assumes "length x = length y"
  shows "map (\<lambda>i. y ! i) [0..<length x] = y"
  using assms by (simp add: map_nth)

section \<open>Batching\<close>

text \<open>
  Claim C2, as the code has it. Let \<open>N\<close> be the number of aligned rows and
  \<open>z = N div BATCH_SIZE\<close>. A call raises \<open>ZeroDivisionError\<close> when \<open>z = 0\<close> and
  \<open>ValueError\<close> when \<open>z\<close> does not divide \<open>N\<close>. Otherwise it returns exactly \<open>z\<close>
  feature batches and \<open>z\<close> label batches of \<open>N div z\<close> rows each. A batch has
  \<open>BATCH_SIZE\<close> rows when \<open>BATCH_SIZE\<close> divides \<open>N\<close>, and more than \<open>BATCH_SIZE\<close> rows
  otherwise. No row is dropped: read in order, the feature batches and the label batches
  are the stacked rows and the labels taken in the order of one permutation of \<open>0..<N\<close>,
  so the label batches hold exactly the labels \<open>y\<close>, and the feature batches exactly the
  first \<open>N_QUBITS\<close> columns of the stacked rows, each as often as the input has it; these
  are the rows of \<open>x\<close> when every row has \<open>N_QUBITS\<close> columns.
\<close>

theorem Batch_and_Shuffle_batches:
  assumes "length x = length y"
  shows "if length x div BATCH_SIZE = 0
         then fst (Batch_and_Shuffle g x y) = Inl ZeroDivisionError
         else if 0 < length x mod (length x div BATCH_SIZE)
         then fst (Batch_and_Shuffle g x y) = Inl ValueError
         else (\<exists>fs ls. fst (Batch_and_Shuffle g x y) = Inr (fs, ls, length x div BATCH_SIZE)
                 \<and> length fs = length x div BATCH_SIZE
                 \<and> length ls = length x div BATCH_SIZE
                 \<and> map length fs =
                     replicate (length x div BATCH_SIZE) (length x div (length x div BATCH_SIZE))
                 \<and> map length ls =
                     replicate (length x div BATCH_SIZE) (length x div (length x div BATCH_SIZE))
                 \<and> length (concat fs) = length x
                 \<and> length (concat ls) = length x
                 \<and> (if length x mod BATCH_SIZE = 0
                     then length x div (length x div BATCH_SIZE) = BATCH_SIZE
                     else BATCH_SIZE < length x div (length x div BATCH_SIZE))
                 \<and> mset (shuffle_perm g (length x)) = mset [0..<length x]
                 \<and> concat fs =
                     map (\<lambda>i. take N_QUBITS (x ! i @ [y ! i])) (shuffle_perm g (length x))
                 \<and> concat ls = map (\<lambda>i. y ! i) (shuffle_perm g (length x))
                 \<and> mset (concat fs) = mset (map2 (\<lambda>f l. take N_QUBITS (f @ [l])) x y)
                 \<and> mset (concat ls) = mset y
                 \<and> (if list_all (\<lambda>r. length r = N_QUBITS) x
                     then mset (concat fs) = mset x else True))"
proof -
  let ?N = "length x"
  let ?z = "?N div BATCH_SIZE"
  let ?F = "map (\<lambda>i. take N_QUBITS (x ! i @ [y ! i])) (shuffle_perm g ?N)"
  let ?L = "map (\<lambda>i. y ! i) (shuffle_perm g ?N)"
  note eq = Batch_and_Shuffle_eq [OF assms, of g]
  show ?thesis
  proof (cases "?z = 0")
    case True
    with eq show ?thesis by simp
  next
    case z: False
    show ?thesis
    proof (cases "0 < ?N mod ?z")
      case True
      with z eq show ?thesis by simp
    next
      case False
      then have m: "?N mod ?z = 0" by simp
      have r: "fst (Batch_and_Shuffle g x y) = Inr (chunks_of ?F ?z, chunks_of ?L ?z, ?z)"
        using eq z m by simp
      have lF: "length ?F = ?N" and lL: "length ?L = ?N"
        by (simp_all add: shuffle_perm_length)
      have cF: "concat (chunks_of ?F ?z) = ?F"
        by (rule chunks_of_concat) (simp add: shuffle_perm_length m)
      have cL: "concat (chunks_of ?L ?z) = ?L"
        by (rule chunks_of_concat) (simp add: shuffle_perm_length m)
      have sz: "if ?N mod BATCH_SIZE = 0 then ?N div ?z = BATCH_SIZE
                else BATCH_SIZE < ?N div ?z"
        using batch_rows_vs_BATCH_SIZE [of ?N] z m by simp
      have mF: "map length (chunks_of ?F ?z) = replicate ?z (?N div ?z)"
        using chunks_of_map_length [of ?F ?z] by (simp only: lF)
      have mL: "map length (chunks_of ?L ?z) = replicate ?z (?N div ?z)"
        using chunks_of_map_length [of ?L ?z] by (simp only: lL)
      have "length (chunks_of ?F ?z) = ?z" "length (chunks_of ?L ?z) = ?z"
        by (simp_all only: chunks_of_length)
      moreover have "length (concat (chunks_of ?F ?z)) = ?N" "length (concat (chunks_of ?L ?z)) = ?N"
        by (simp_all only: cF cL lF lL)
      moreover have "mset (concat (chunks_of ?F ?z)) =
                       mset (map2 (\<lambda>f l. take N_QUBITS (f @ [l])) x y)"
        unfolding cF
        by (simp only: mset_map_shuffle_perm stacked_rows_by_index [OF assms])
      moreover have "mset (concat (chunks_of ?L ?z)) = mset y"
        unfolding cL
        by (simp only: mset_map_shuffle_perm labels_by_index [OF assms])
      moreover have "if list_all (\<lambda>r. length r = N_QUBITS) x
                     then mset (concat (chunks_of ?F ?z)) = mset x else True"
      proof (cases "list_all (\<lambda>r. length r = N_QUBITS) x")
        case True
        have "mset (concat (chunks_of ?F ?z)) =
                mset (map2 (\<lambda>f l. take N_QUBITS (f @ [l])) x y)"
          unfolding cF
          by (simp only: mset_map_shuffle_perm stacked_rows_by_index [OF assms])
        also have "\<dots> = mset x"
          by (simp only: stacked_rows_width [OF assms True])
        finally show ?thesis
          using True by (simp only: if_True)
      next
        case False
        then show ?thesis by (simp only: if_False)
      qed
      ultimately have "fst (Batch_and_Shuffle g x y) = Inr (chunks_of ?F ?z, chunks_of ?L ?z, ?z)
                 \<and> length (chunks_of ?F ?z) = ?z
                 \<and> length (chunks_of ?L ?z) = ?z
                 \<and> map length (chunks_of ?F ?z) = replicate ?z (?N div ?z)
                 \<and> map length (chunks_of ?L ?z) = replicate ?z (?N div ?z)
                 \<and> length (concat (chunks_of ?F ?z)) = ?N
                 \<and> length (concat (chunks_of ?L ?z)) = ?N
                 \<and> (if ?N mod BATCH_SIZE = 0 then ?N div ?z = BATCH_SIZE
                     else BATCH_SIZE < ?N div ?z)
                 \<and> mset (shuffle_perm g ?N) = mset [0..<?N]
                 \<and> concat (chunks_of ?F ?z) = ?F
                 \<and> concat (chunks_of ?L ?z) = ?L
                 \<and> mset (concat (chunks_of ?F ?z)) =
                     mset (map2 (\<lambda>f l. take N_QUBITS (f @ [l])) x y)
                 \<and> mset (concat (chunks_of ?L ?z)) = mset y
                 \<and> (if list_all (\<lambda>r. length r = N_QUBITS) x
                     then mset (concat (chunks_of ?F ?z)) = mset x else True)"
        using r mF mL sz cF cL shuffle_perm_mset [of g ?N] by blast
      then have "\<exists>fs ls. fst (Batch_and_Shuffle g x y) = Inr (fs, ls, ?z)
                 \<and> length fs = ?z \<and> length ls = ?z
                 \<and> map length fs = replicate ?z (?N div ?z)
                 \<and> map length ls = replicate ?z (?N div ?z)
                 \<and> length (concat fs) = ?N
                 \<and> length (concat ls) = ?N
                 \<and> (if ?N mod BATCH_SIZE = 0 then ?N div ?z = BATCH_SIZE
                     else BATCH_SIZE < ?N div ?z)
                 \<and> mset (shuffle_perm g ?N) = mset [0..<?N]
                 \<and> concat fs = ?F
                 \<and> concat ls = ?L
                 \<and> mset (concat fs) = mset (map2 (\<lambda>f l. take N_QUBITS (f @ [l])) x y)
                 \<and> mset (concat ls) = mset y
                 \<and> (if list_all (\<lambda>r. length r = N_QUBITS) x
                     then mset (concat fs) = mset x else True)"
        by blast
      with z m show ?thesis by (simp only: if_False) simp
    qed
  qed
qed

text \<open>The theorem at 400 rows: two batches of 200 rows.\<close>

theorem Batch_and_Shuffle_batches_witness:
  "length (rows 400) = length (labels 400) \<and>
   (\<exists>fs ls. fst (Batch_and_Shuffle zero_rng (rows 400) (labels 400)) = Inr (fs, ls, 2)
      \<and> length fs = 2 \<and> length ls = 2
      \<and> map length fs = replicate 2 200
      \<and> map length ls = replicate 2 200
      \<and> length (concat fs) = 400
      \<and> length (concat ls) = 400
      \<and> mset (concat fs) = mset (rows 400)
      \<and> mset (concat ls) = mset (labels 400))"
proof -
  have h: "length (rows 400) = length (labels 400)"
    by (simp add: rows_length labels_length)
  have st: "map2 (\<lambda>f l. take N_QUBITS (f @ [l])) (rows 400) (labels 400) = rows 400"
    by (simp add: rows_def labels_def zip_replicate)
  have a: "400 div BATCH_SIZE = 2" "400 mod 2 = (0::nat)" "400 mod BATCH_SIZE = 0"
    "(400::nat) div 2 = 200"
    by (simp_all add: BATCH_SIZE_def)
  from Batch_and_Shuffle_batches [OF h, of zero_rng]
  obtain fs ls where
    "fst (Batch_and_Shuffle zero_rng (rows 400) (labels 400)) = Inr (fs, ls, 2)"
    "length fs = 2" "length ls = 2"
    "map length fs = replicate 2 200" "map length ls = replicate 2 200"
    "length (concat fs) = 400" "length (concat ls) = 400"
    "mset (concat fs) = mset (rows 400)" "mset (concat ls) = mset (labels 400)"
    unfolding rows_length a st by (auto simp del: take_append)
  with h show ?thesis by blast
qed

text \<open>
  With 401 rows the claim promises two batches of 200 rows and one dropped row; the
  call raises \<open>ValueError\<close>.
\<close>

theorem Batch_and_Shuffle_batches_counterexample:
  "fst (Batch_and_Shuffle zero_rng (rows 401) (labels 401)) = Inl ValueError \<and>
   401 div BATCH_SIZE = 2 \<and> 401 mod BATCH_SIZE = 1"
  using Batch_and_Shuffle_eq [of "rows 401" "labels 401" zero_rng]
  by (simp add: rows_length labels_length BATCH_SIZE_def)

lemma chunks_of_map:
  "chunks_of (map f xs) s = map (map f) (chunks_of xs s)"
  by (simp add: chunks_of_def take_map drop_map)

text \<open>
  Claim C7, as the code has it. When a call on \<open>N\<close> aligned rows returns, let \<open>p\<close> be the
  order in which the shuffle visits the row indices and \<open>c = N div z\<close> the batch length.
  Then \<open>p\<close> is a permutation of \<open>0..<N\<close>; batch \<open>k\<close> of the features and batch \<open>k\<close> of the
  labels are read off the same block \<open>k\<close> of \<open>p\<close>, so a feature row keeps its label; the
  blocks put together are \<open>p\<close>, so no row is in two batches and none is left out; and the
  batches hold \<open>N\<close> rows in total, which is \<open>BATCH_SIZE * (N div BATCH_SIZE)\<close> when
  \<open>BATCH_SIZE\<close> divides \<open>N\<close>. The feature row of index \<open>i\<close> is the first \<open>N_QUBITS\<close>
  columns of the stacked row, which is \<open>x ! i\<close> when the rows have \<open>N_QUBITS\<close> columns.
\<close>

theorem Batch_and_Shuffle_permutes:
  assumes "length x = length y"
    and "fst (Batch_and_Shuffle g x y) = Inr (fs, ls, z)"
  shows "mset (shuffle_perm g (length x)) = mset [0..<length x]
       \<and> distinct (shuffle_perm g (length x))
       \<and> fs = map (map (\<lambda>i. take N_QUBITS (x ! i @ [y ! i])))
                 (chunks_of (shuffle_perm g (length x)) z)
       \<and> ls = map (map (\<lambda>i. y ! i)) (chunks_of (shuffle_perm g (length x)) z)
       \<and> concat (chunks_of (shuffle_perm g (length x)) z) = shuffle_perm g (length x)
       \<and> length (concat fs) = length x
       \<and> length (concat ls) = length x
       \<and> (if length x mod BATCH_SIZE = 0
           then length (concat fs) = BATCH_SIZE * (length x div BATCH_SIZE)
           else BATCH_SIZE * (length x div BATCH_SIZE) < length (concat fs))
       \<and> (if list_all (\<lambda>r. length r = N_QUBITS) x
           then fs = map (map (\<lambda>i. x ! i)) (chunks_of (shuffle_perm g (length x)) z)
           else True)"
proof -
  let ?N = "length x"
  let ?p = "shuffle_perm g ?N"
  let ?f = "\<lambda>i. take N_QUBITS (x ! i @ [y ! i])"
  note eq = Batch_and_Shuffle_eq [OF assms(1), of g]
  have z0: "?N div BATCH_SIZE \<noteq> 0" and m: "?N mod (?N div BATCH_SIZE) = 0"
    using eq assms(2) by (auto split: if_splits)
  have z: "z = ?N div BATCH_SIZE"
    and fs: "fs = chunks_of (map ?f ?p) z"
    and ls: "ls = chunks_of (map (\<lambda>i. y ! i) ?p) z"
    using eq assms(2) z0 m by simp_all
  have fs': "fs = map (map ?f) (chunks_of ?p z)"
    using fs by (simp only: chunks_of_map)
  have ls': "ls = map (map (\<lambda>i. y ! i)) (chunks_of ?p z)"
    using ls by (simp only: chunks_of_map)
  have cp: "concat (chunks_of ?p z) = ?p"
    by (rule chunks_of_concat) (simp add: shuffle_perm_length z m)
  have cf: "concat fs = map ?f ?p"
    unfolding fs by (rule chunks_of_concat) (simp add: shuffle_perm_length z m)
  have cl: "concat ls = map (\<lambda>i. y ! i) ?p"
    unfolding ls by (rule chunks_of_concat) (simp add: shuffle_perm_length z m)
  have lf: "length (concat fs) = ?N" and ll: "length (concat ls) = ?N"
    by (simp_all add: cf cl shuffle_perm_length)
  have total: "if ?N mod BATCH_SIZE = 0
           then length (concat fs) = BATCH_SIZE * (?N div BATCH_SIZE)
           else BATCH_SIZE * (?N div BATCH_SIZE) < length (concat fs)"
  proof (cases "?N mod BATCH_SIZE = 0")
    case True
    then show ?thesis by (simp add: lf mod_0_imp_dvd)
  next
    case False
    have "0 < BATCH_SIZE" by (simp add: BATCH_SIZE_def)
    then have "BATCH_SIZE * (?N div BATCH_SIZE) < ?N"
      using False by (metis mult_div_mod_eq less_add_same_cancel1 neq0_conv)
    with False show ?thesis by (simp add: lf)
  qed
  have wide: "if list_all (\<lambda>r. length r = N_QUBITS) x
           then fs = map (map (\<lambda>i. x ! i)) (chunks_of ?p z) else True"
  proof (cases "list_all (\<lambda>r. length r = N_QUBITS) x")
    case True
    have "\<And>i. i \<in> set ?p \<Longrightarrow> ?f i = x ! i"
      using True by (simp add: shuffle_perm_set list_all_length)
    then have "map ?f ?p = map (\<lambda>i. x ! i) ?p"
      by simp
    then have "fs = map (map (\<lambda>i. x ! i)) (chunks_of ?p z)"
      using fs by (simp only: chunks_of_map)
    with True show ?thesis by simp
  next
    case False
    then show ?thesis by simp
  qed
  show ?thesis
    using shuffle_perm_mset [of g ?N] shuffle_perm_distinct [of g ?N] fs' ls' cp lf ll total wide
    by blast
qed


text \<open>The theorem at 400 rows of \<open>N_QUBITS\<close> columns.\<close>

theorem Batch_and_Shuffle_permutes_witness:
  "length (rows 400) = length (labels 400)
   \<and> fst (Batch_and_Shuffle zero_rng (rows 400) (labels 400)) =
       Inr (chunks_of (map (\<lambda>i. take N_QUBITS (rows 400 ! i @ [labels 400 ! i]))
                         (shuffle_perm zero_rng 400)) 2,
            chunks_of (map (\<lambda>i. labels 400 ! i) (shuffle_perm zero_rng 400)) 2,
            2)
   \<and> mset (shuffle_perm zero_rng 400) = mset [0..<400]
   \<and> distinct (shuffle_perm zero_rng 400)
   \<and> chunks_of (map (\<lambda>i. take N_QUBITS (rows 400 ! i @ [labels 400 ! i]))
                 (shuffle_perm zero_rng 400)) 2 =
       map (map (\<lambda>i. take N_QUBITS (rows 400 ! i @ [labels 400 ! i])))
         (chunks_of (shuffle_perm zero_rng 400) 2)
   \<and> chunks_of (map (\<lambda>i. labels 400 ! i) (shuffle_perm zero_rng 400)) 2 =
       map (map (\<lambda>i. labels 400 ! i)) (chunks_of (shuffle_perm zero_rng 400) 2)
   \<and> concat (chunks_of (shuffle_perm zero_rng 400) 2) = shuffle_perm zero_rng 400
   \<and> length (concat (chunks_of (map (\<lambda>i. take N_QUBITS (rows 400 ! i @ [labels 400 ! i]))
                 (shuffle_perm zero_rng 400)) 2)) = 400
   \<and> length (concat (chunks_of (map (\<lambda>i. labels 400 ! i) (shuffle_perm zero_rng 400)) 2)) = 400
   \<and> length (concat (chunks_of (map (\<lambda>i. take N_QUBITS (rows 400 ! i @ [labels 400 ! i]))
                 (shuffle_perm zero_rng 400)) 2)) = BATCH_SIZE * (400 div BATCH_SIZE)
   \<and> chunks_of (map (\<lambda>i. take N_QUBITS (rows 400 ! i @ [labels 400 ! i]))
                 (shuffle_perm zero_rng 400)) 2 =
       map (map (\<lambda>i. rows 400 ! i)) (chunks_of (shuffle_perm zero_rng 400) 2)"
proof -
  have h1: "length (rows 400) = length (labels 400)"
    by (simp add: rows_length labels_length)
  have h2: "fst (Batch_and_Shuffle zero_rng (rows 400) (labels 400)) =
       Inr (chunks_of (map (\<lambda>i. take N_QUBITS (rows 400 ! i @ [labels 400 ! i]))
                         (shuffle_perm zero_rng 400)) 2,
            chunks_of (map (\<lambda>i. labels 400 ! i) (shuffle_perm zero_rng 400)) 2,
            2)"
    using Batch_and_Shuffle_eq [OF h1, of zero_rng]
    by (simp add: rows_length BATCH_SIZE_def del: take_append)
  have w: "list_all (\<lambda>r. length r = N_QUBITS) (rows 400) = True"
    by (simp add: rows_def list_all_iff)
  have b: "(400 mod BATCH_SIZE = 0) = True" and rl: "length (rows 400) = 400"
    by (simp_all add: BATCH_SIZE_def rows_length)
  note T = Batch_and_Shuffle_permutes [OF h1 h2, unfolded rl b w if_True]
  show ?thesis
    by (rule conjI [OF h1 conjI [OF h2 T]])
qed

text \<open>
  With 250 rows the claim promises \<open>BATCH_SIZE * (250 div BATCH_SIZE) = 200\<close> samples
  in the batches; the call returns one batch of all 250 rows.
\<close>

theorem Batch_and_Shuffle_permutes_counterexample:
  "(case fst (Batch_and_Shuffle zero_rng (rows 250) (labels 250)) of
      Inl e \<Rightarrow> False
    | Inr (fs, ls, z) \<Rightarrow> z = 1 \<and> length fs = 1 \<and> length (concat fs) = 250)
   \<and> BATCH_SIZE * (250 div BATCH_SIZE) = 200"
proof -
  have h1: "length (rows 250) = length (labels 250)"
    by (simp add: rows_length labels_length)
  have c: "\<And>xs :: real list list. length (concat (chunks_of xs (Suc 0))) = length xs"
    by (simp add: chunks_of_concat)
  show ?thesis
    using Batch_and_Shuffle_eq [OF h1, of zero_rng]
    by (simp add: rows_length BATCH_SIZE_def c chunks_of_length shuffle_perm_length del: take_append)
qed

section \<open>The training loop\<close>

lemma Train_Batches_unbound:
  "l_opt_state fr = None \<Longrightarrow> 0 < chunks \<Longrightarrow>
     Train_Batches ops train_f train_t [0..<chunks] fr = Inl UnboundLocalError"
  by (simp add: upt_conv_Cons)

lemma Train_Epochs_split_error:
  "fst (Batch_and_Shuffle (np_rng wd) x y) = Inl e \<Longrightarrow>
     Train_Epochs ops x y (i # rest) fr wd =
       (Inl e, wd\<lparr>np_rng := snd (Batch_and_Shuffle (np_rng wd) x y)\<rparr>)"
  by (cases "Batch_and_Shuffle (np_rng wd) x y") simp

lemma Train_Epochs_unbound:
  "fst (Batch_and_Shuffle (np_rng wd) x y) = Inr (train_f, train_t, chunks) \<Longrightarrow>
   0 < chunks \<Longrightarrow> l_opt_state fr = None \<Longrightarrow>
     Train_Epochs ops x y (i # rest) fr wd =
       (Inl UnboundLocalError, wd\<lparr>np_rng := snd (Batch_and_Shuffle (np_rng wd) x y)\<rparr>)"
  by (cases "Batch_and_Shuffle (np_rng wd) x y") (simp add: Train_Batches_unbound)

declare Train_Epochs.simps [simp del]

lemma Batch_and_Shuffle_misaligned:
  "length x \<noteq> length y \<Longrightarrow> Batch_and_Shuffle g x y = (Inl ValueError, g)"
  by (simp add: Batch_and_Shuffle_def column_stack_def)

text \<open>
  The exception that ends the first epoch of a run whose \<^verbatim>\<open>opt_state\<close> is not bound.
\<close>

lemma Train_Epochs_first:
  assumes "length x = length y" and "l_opt_state fr = None"
  shows "Train_Epochs ops x y (i # rest) fr wd =
     (Inl (if length x div BATCH_SIZE = 0 then ZeroDivisionError
           else if 0 < length x mod (length x div BATCH_SIZE) then ValueError
           else UnboundLocalError),
      wd\<lparr>np_rng := snd (Batch_and_Shuffle (np_rng wd) x y)\<rparr>)"
proof -
  note eq = Batch_and_Shuffle_eq [OF assms(1), of "np_rng wd"]
  show ?thesis
  proof (cases "length x div BATCH_SIZE = 0")
    case True
    then have "fst (Batch_and_Shuffle (np_rng wd) x y) = Inl ZeroDivisionError"
      using eq by simp
    from Train_Epochs_split_error [OF this] True show ?thesis
      by simp
  next
    case z: False
    show ?thesis
    proof (cases "0 < length x mod (length x div BATCH_SIZE)")
      case True
      then have "fst (Batch_and_Shuffle (np_rng wd) x y) = Inl ValueError"
        using eq z by simp
      from Train_Epochs_split_error [OF this] True z show ?thesis
        by simp
    next
      case False
      then obtain tf tt where "fst (Batch_and_Shuffle (np_rng wd) x y) =
          Inr (tf, tt, length x div BATCH_SIZE)"
        using eq z by simp
      from Train_Epochs_unbound [OF this _ assms(2)] False z show ?thesis
        by simp
    qed
  qed
qed

lemma epochs_Cons: "[0..<N_EPOCHS] = 0 # [Suc 0..<N_EPOCHS]"
  by (rule upt_conv_Cons) (simp add: N_EPOCHS_def)

lemma Train_Model_raises:
  assumes "length x = length y"
  shows "Train_Model ops x y wd =
     (Inl (if length x div BATCH_SIZE = 0 then ZeroDivisionError
           else if 0 < length x mod (length x div BATCH_SIZE) then ValueError
           else UnboundLocalError),
      wd\<lparr>stdout := stdout wd @
            [''Training...'', ''Epoch'' @ [CHR 0x09] @ ''Loss'' @ [CHR 0x09] @ ''Accuracy''],
         np_rng := snd (Batch_and_Shuffle (np_rng wd) x y)\<rparr>)"
  by (simp add: Train_Model_def Let_def epochs_Cons Train_Epochs_first [OF assms])

lemma Train_Model_misaligned:
  assumes "length x \<noteq> length y"
  shows "Train_Model ops x y wd =
     (Inl ValueError,
      wd\<lparr>stdout := stdout wd @
            [''Training...'', ''Epoch'' @ [CHR 0x09] @ ''Loss'' @ [CHR 0x09] @ ''Accuracy'']\<rparr>)"
proof -
  have "\<And>fr wd' rest. Train_Epochs ops x y (0 # rest) fr wd' = (Inl ValueError, wd')"
    using assms by (simp add: Train_Epochs.simps Batch_and_Shuffle_misaligned)
  then show ?thesis
    by (simp add: Train_Model_def Let_def epochs_Cons)
qed

text \<open>
  Claim C1, as the code has it. \<^verbatim>\<open>Train_Model\<close> never returns, and it leaves no saved
  file and no printed line beyond its two header lines. The exception is
  \<open>UnboundLocalError\<close>, raised at the first batch of the first epoch, when the dataset can
  be split: \<open>z = N div BATCH_SIZE\<close> is positive and divides the number \<open>N\<close> of aligned
  rows. On every other dataset \<^verbatim>\<open>Batch_and_Shuffle\<close> raises first, in the first epoch:
  \<open>ZeroDivisionError\<close> when \<open>z = 0\<close>, \<open>ValueError\<close> when \<open>z\<close> does not divide \<open>N\<close> or the
  features and labels differ in number.
\<close>

theorem Train_Model_never_returns:
  "fst (Train_Model ops x y wd) =
     Inl (if length x = length y
          then (if length x div BATCH_SIZE = 0 then ZeroDivisionError
                else if 0 < length x mod (length x div BATCH_SIZE) then ValueError
                else UnboundLocalError)
          else ValueError)
   \<and> files (snd (Train_Model ops x y wd)) = files wd
   \<and> stdout (snd (Train_Model ops x y wd)) =
       stdout wd @
         [''Training...'', ''Epoch'' @ [CHR 0x09] @ ''Loss'' @ [CHR 0x09] @ ''Accuracy'']"
proof (cases "length x = length y")
  case True
  from Train_Model_raises [OF True, of ops wd] True show ?thesis
    by simp
next
  case False
  from Train_Model_misaligned [OF False, of ops wd] False show ?thesis
    by simp
qed

text \<open>
  On 401 aligned rows the exception is not the unbound local: the split into two
  sections is refused in the first epoch.
\<close>

theorem Train_Model_never_returns_counterexample:
  "fst (Train_Model plus_one_ops (rows 401) (labels 401) world0) = Inl ValueError"
proof -
  have h: "length (rows 401) = length (labels 401)"
    by (simp add: rows_length labels_length)
  show ?thesis
    using Train_Model_raises [OF h, of plus_one_ops world0]
    by (simp add: rows_length BATCH_SIZE_def)
qed

text \<open>
  Claim C3, as the code has it. When the dataset has fewer aligned rows than
  \<open>BATCH_SIZE\<close>, \<^verbatim>\<open>Batch_and_Shuffle\<close> raises \<open>ZeroDivisionError\<close>: it returns no batches
  and no count. The epoch is not skipped: \<^verbatim>\<open>Train_Model\<close> ends with the same exception,
  having printed its two header lines and no warning.
\<close>

theorem Batch_and_Shuffle_too_few_rows:
  assumes "length x = length y" and "length x < BATCH_SIZE"
  shows "fst (Batch_and_Shuffle g x y) = Inl ZeroDivisionError
       \<and> fst (Train_Model ops x y wd) = Inl ZeroDivisionError
       \<and> stdout (snd (Train_Model ops x y wd)) =
           stdout wd @
             [''Training...'', ''Epoch'' @ [CHR 0x09] @ ''Loss'' @ [CHR 0x09] @ ''Accuracy'']"
  using Batch_and_Shuffle_eq [OF assms(1), of g] Train_Model_raises [OF assms(1), of ops wd]
    assms(2)
  by simp

text \<open>The theorem at 199 rows.\<close>

theorem Batch_and_Shuffle_too_few_rows_witness:
  "length (rows 199) = length (labels 199) \<and> length (rows 199) < BATCH_SIZE
   \<and> fst (Batch_and_Shuffle zero_rng (rows 199) (labels 199)) = Inl ZeroDivisionError
   \<and> fst (Train_Model plus_one_ops (rows 199) (labels 199) world0) = Inl ZeroDivisionError
   \<and> stdout (snd (Train_Model plus_one_ops (rows 199) (labels 199) world0)) =
       [''Training...'', ''Epoch'' @ [CHR 0x09] @ ''Loss'' @ [CHR 0x09] @ ''Accuracy'']"
proof -
  have h1: "length (rows 199) = length (labels 199)"
    by (simp add: rows_length labels_length)
  have h2: "length (rows 199) < BATCH_SIZE"
    by (simp add: rows_length BATCH_SIZE_def)
  from Batch_and_Shuffle_too_few_rows [OF h1 h2, of zero_rng plus_one_ops world0] h1 h2
  show ?thesis
    by (simp add: world0_def)
qed

text \<open>
  On one row and one label the claim promises an empty list of batches; the call
  raises the division by zero.
\<close>

theorem Batch_and_Shuffle_too_few_rows_counterexample:
  "fst (Batch_and_Shuffle zero_rng (rows 1) (labels 1)) = Inl ZeroDivisionError
   \<and> fst (Batch_and_Shuffle zero_rng (rows 1) (labels 1)) \<noteq> Inr ([], [], 0)"
proof -
  have h: "length (rows 1) = length (labels 1)"
    by (simp add: rows_length labels_length)
  show ?thesis
    using Batch_and_Shuffle_eq [OF h, of zero_rng]
    by (simp add: rows_length BATCH_SIZE_def)
qed

section \<open>The metric functions and the training step\<close>

lemma broadcast2_aligned:
  "length a = length b \<Longrightarrow> broadcast2 f a b = Inr (map2 f a b)"
  by (simp add: broadcast2_def)

lemma sum_list_hits:
  "sum_list (map (\<lambda>v. if P v then 1 else 0) xs) = real (length (filter P xs))"
  by (induction xs) simp_all

lemma Loss_aligned:
  assumes "x \<noteq> []" and "length x = length y"
  shows "Loss ops w x y = Inr (Some (mean_squared_error (Circuit ops x w) y))"
proof -
  have l: "length (Circuit ops x w) = length y"
    using assms(2) by (simp add: Circuit_def)
  have n: "map2 (\<lambda>p l. (p - l)\<^sup>2) (Circuit ops x w) y \<noteq> []"
    using assms l by (cases x; cases y) (simp_all add: Circuit_def)
  have len: "length (map2 (\<lambda>p l. (p - l)\<^sup>2) (Circuit ops x w) y) = length (Circuit ops x w)"
    using l by simp
  show ?thesis
    using n len
    by (simp add: Loss_def Let_def broadcast2_aligned [OF l] jnp_mean_def mean_squared_error_def
        del: length_map length_zip)
qed

lemma Accuracy_aligned:
  assumes "x \<noteq> []" and "length x = length y"
  shows "Accuracy ops w x y = Inr (Some (fraction_correct (Circuit ops x w) y))"
proof -
  let ?pred = "Circuit ops x w"
  have l: "length ?pred = length y"
    using assms(2) by (simp add: Circuit_def)
  have n: "zip ?pred y \<noteq> []"
    using assms l by (cases x; cases y) (simp_all add: Circuit_def)
  have s: "sum_list (map (\<lambda>h. if h then 1 else 0) (map2 (\<lambda>p l. sgn p = l) ?pred y)) =
             real (length (filter (\<lambda>(p, l). sgn p = l) (zip ?pred y)))"
    using sum_list_hits [of "\<lambda>(p, l). sgn p = l" "zip ?pred y"]
    by (simp add: comp_def case_prod_unfold)
  have len: "length (map (\<lambda>h. if h then 1 else 0 :: real) (map2 (\<lambda>p l. sgn p = l) ?pred y)) =
               length ?pred"
    using l by simp
  have ne: "map (\<lambda>h. if h then 1 else 0 :: real) (map2 (\<lambda>p l. sgn p = l) ?pred y) \<noteq> []"
    using n by simp
  show ?thesis
    unfolding Accuracy_def Let_def broadcast2_aligned [OF l] jnp_mean_def fraction_correct_def
    using ne by (simp only: s len if_False sum.case)
qed

lemma fraction_correct_bounds:
  "0 \<le> fraction_correct pred y \<and> fraction_correct pred y \<le> 1"
proof -
  have "length (filter (\<lambda>(p, l). sgn p = l) (zip pred y)) \<le> length (zip pred y)"
    by (rule length_filter_le)
  also have "\<dots> \<le> length pred"
    by simp
  finally have "real (length (filter (\<lambda>(p, l). sgn p = l) (zip pred y))) \<le> real (length pred)"
    by simp
  then show ?thesis
    by (simp add: fraction_correct_def divide_le_eq_1)
qed

lemma all_plus_one_metrics:
  assumes "pred \<noteq> []" and "length pred = length y"
    and "list_all (\<lambda>p. p = 1) pred" and "list_all (\<lambda>l. l = 1) y"
  shows "mean_squared_error pred y = 0 \<and> fraction_correct pred y = 1"
proof -
  have z: "\<And>v. v \<in> set (zip pred y) \<Longrightarrow> v = (1, 1)"
    using assms(3,4) by (auto simp: list_all_iff dest: set_zip_leftD set_zip_rightD)
  have "map (\<lambda>(p, l). (p - l)\<^sup>2) (zip pred y) = map (\<lambda>v. 0) (zip pred y)"
    by (rule map_cong) (auto dest: z)
  then have "(\<Sum>(p, l)\<leftarrow>zip pred y. (p - l)\<^sup>2) = sum_list (map (\<lambda>v. 0 :: real) (zip pred y))"
    by (simp only:)
  then have mse: "mean_squared_error pred y = 0"
    unfolding mean_squared_error_def by simp
  have "filter (\<lambda>(p, l). sgn p = l) (zip pred y) = zip pred y"
    by (rule filter_True) (auto dest: z)
  moreover have "y \<noteq> []"
    using assms(1,2) by (cases y) simp_all
  ultimately have "fraction_correct pred y = 1"
    using assms(1,2) by (simp add: fraction_correct_def)
  with mse show ?thesis by simp
qed


text \<open>
  Claim C8. On a batch of at least one row with as many labels as rows, \<open>Loss\<close> returns
  the mean squared error between the predictor output and the labels, and \<open>Accuracy\<close>
  returns the fraction of samples whose prediction has the sign of the label, a number
  between \<open>0\<close> and \<open>1\<close>. When the predictor answers \<open>+1\<close> on every row and every label
  is \<open>+1\<close>, the loss is \<open>0\<close> and the accuracy is \<open>1\<close>, whatever the parameters \<open>w\<close>.
\<close>

theorem Loss_and_Accuracy:
  assumes "x \<noteq> []" and "length x = length y"
  shows "Loss ops w x y = Inr (Some (mean_squared_error (Circuit ops x w) y))
       \<and> Accuracy ops w x y = Inr (Some (fraction_correct (Circuit ops x w) y))
       \<and> 0 \<le> fraction_correct (Circuit ops x w) y
       \<and> fraction_correct (Circuit ops x w) y \<le> 1
       \<and> (if list_all (\<lambda>r. qnode ops r w = 1) x \<and> list_all (\<lambda>l. l = 1) y
           then Loss ops w x y = Inr (Some 0) \<and> Accuracy ops w x y = Inr (Some 1)
           else True)"
proof -
  let ?pred = "Circuit ops x w"
  note L = Loss_aligned [OF assms, of ops w]
  note A = Accuracy_aligned [OF assms, of ops w]
  note B = fraction_correct_bounds [of ?pred y]
  have "Loss ops w x y = Inr (Some 0) \<and> Accuracy ops w x y = Inr (Some 1)"
    if ones: "list_all (\<lambda>r. qnode ops r w = 1) x \<and> list_all (\<lambda>l. l = 1) y"
  proof -
    have "?pred \<noteq> []" and "length ?pred = length y"
      using assms by (simp_all add: Circuit_def)
    moreover have "list_all (\<lambda>p. p = 1) ?pred"
      using ones by (simp add: Circuit_def list_all_iff)
    ultimately have "mean_squared_error ?pred y = 0 \<and> fraction_correct ?pred y = 1"
      using ones by (intro all_plus_one_metrics) simp_all
    with L A show ?thesis by simp
  qed
  with L A B show ?thesis by simp
qed

text \<open>The theorem on a batch of 200 rows, for the predictor that always answers \<open>+1\<close>.\<close>

theorem Loss_and_Accuracy_witness:
  "rows 200 \<noteq> [] \<and> length (rows 200) = length (labels 200)
   \<and> list_all (\<lambda>r. qnode plus_one_ops r 7 = 1) (rows 200)
   \<and> list_all (\<lambda>l. l = 1) (labels 200)
   \<and> Loss plus_one_ops 7 (rows 200) (labels 200) = Inr (Some 0)
   \<and> Accuracy plus_one_ops 7 (rows 200) (labels 200) = Inr (Some 1)"
proof -
  have h1: "rows 200 \<noteq> []"
    by (simp add: rows_def)
  have h2: "length (rows 200) = length (labels 200)"
    by (simp add: rows_length labels_length)
  have h3: "list_all (\<lambda>r. qnode plus_one_ops r 7 = 1) (rows 200)
              \<and> list_all (\<lambda>l. l = 1) (labels 200)"
    by (simp add: plus_one_ops_def labels_def list_all_iff)
  have h3': "(list_all (\<lambda>r. qnode plus_one_ops r 7 = 1) (rows 200)
               \<and> list_all (\<lambda>l. l = 1) (labels 200)) = True"
    using h3 by simp
  note T = Loss_and_Accuracy [OF h1 h2, of plus_one_ops 7, unfolded h3' if_True]
  from T have "Loss plus_one_ops 7 (rows 200) (labels 200) = Inr (Some 0)
      \<and> Accuracy plus_one_ops 7 (rows 200) (labels 200) = Inr (Some 1)"
    by blast
  with h1 h2 h3 show ?thesis
    by blast
qed

text \<open>
  Claim C6. A training step reads the parameters \<open>w\<close> out of the optimizer state it is
  given, before the update. It returns the loss at \<open>w\<close> and the accuracy at \<open>w\<close>, and the
  state it returns is the update of the given state by the gradient of the loss at that
  same \<open>w\<close>. It raises exactly when the loss or the accuracy at \<open>w\<close> does; on a batch with
  as many labels as rows it returns. The step of \<^verbatim>\<open>test.py\<close> is the same.
\<close>

theorem Train_Step_same_snapshot:
  "Train_Step ops stepid st x y =
     (case Loss ops (get_params ops st) x y of
        Inl e \<Rightarrow> Inl e
      | Inr l \<Rightarrow>
          (case Accuracy ops (get_params ops st) x y of
             Inl e \<Rightarrow> Inl e
           | Inr a \<Rightarrow>
               Inr (l, a,
                    opt_update ops stepid
                      (jax_grad ops (\<lambda>w. Loss ops w x y) (get_params ops st)) st)))
   \<and> train_step ops stepid st x y =
     (case loss_fn ops (get_params ops st) x y of
        Inl e \<Rightarrow> Inl e
      | Inr l \<Rightarrow>
          (case acc_fn ops (get_params ops st) x y of
             Inl e \<Rightarrow> Inl e
           | Inr a \<Rightarrow>
               Inr (l, a,
                    opt_update ops stepid
                      (jax_grad ops (\<lambda>w. loss_fn ops w x y) (get_params ops st)) st)))
   \<and> (if length x = length y
       then Train_Step ops stepid st x y =
              Inr (jnp_mean (map2 (\<lambda>p l. (p - l)\<^sup>2) (Circuit ops x (get_params ops st)) y),
                   jnp_mean (map (\<lambda>h. if h then 1 else 0)
                     (map2 (\<lambda>p l. sgn p = l) (Circuit ops x (get_params ops st)) y)),
                   opt_update ops stepid
                     (jax_grad ops (\<lambda>w. Loss ops w x y) (get_params ops st)) st)
       else True)"
proof -
  have a: "length x = length y \<Longrightarrow> length (Circuit ops x (get_params ops st)) = length y"
    by (simp add: Circuit_def)
  have 1: "Train_Step ops stepid st x y =
     (case Loss ops (get_params ops st) x y of
        Inl e \<Rightarrow> Inl e
      | Inr l \<Rightarrow>
          (case Accuracy ops (get_params ops st) x y of
             Inl e \<Rightarrow> Inl e
           | Inr a \<Rightarrow>
               Inr (l, a,
                    opt_update ops stepid
                      (jax_grad ops (\<lambda>w. Loss ops w x y) (get_params ops st)) st)))"
    by (simp add: Train_Step_def value_and_grad_def Let_def split: sum.splits)
  have 2: "train_step ops stepid st x y =
     (case loss_fn ops (get_params ops st) x y of
        Inl e \<Rightarrow> Inl e
      | Inr l \<Rightarrow>
          (case acc_fn ops (get_params ops st) x y of
             Inl e \<Rightarrow> Inl e
           | Inr a \<Rightarrow>
               Inr (l, a,
                    opt_update ops stepid
                      (jax_grad ops (\<lambda>w. loss_fn ops w x y) (get_params ops st)) st)))"
    by (simp add: train_step_def value_and_grad_def Let_def split: sum.splits)
  have 3: "Train_Step ops stepid st x y =
              Inr (jnp_mean (map2 (\<lambda>p l. (p - l)\<^sup>2) (Circuit ops x (get_params ops st)) y),
                   jnp_mean (map (\<lambda>h. if h then 1 else 0)
                     (map2 (\<lambda>p l. sgn p = l) (Circuit ops x (get_params ops st)) y)),
                   opt_update ops stepid
                     (jax_grad ops (\<lambda>w. Loss ops w x y) (get_params ops st)) st)"
    if "length x = length y"
    unfolding 1 Loss_def Accuracy_def Let_def broadcast2_aligned [OF a [OF that]]
    by simp
  from 1 2 3 show ?thesis
    by (simp only: if_split simp_thms) blast
qed

text \<open>The theorem on a batch of 200 rows: the step returns loss \<open>0\<close> and accuracy \<open>1\<close>.\<close>

theorem Train_Step_same_snapshot_witness:
  "length (rows 200) = length (labels 200)
   \<and> Loss plus_one_ops (get_params plus_one_ops 7) (rows 200) (labels 200) = Inr (Some 0)
   \<and> Accuracy plus_one_ops (get_params plus_one_ops 7) (rows 200) (labels 200) = Inr (Some 1)
   \<and> Train_Step plus_one_ops 3 7 (rows 200) (labels 200) = Inr (Some 0, Some 1, 7)"
proof -
  have h1: "rows 200 \<noteq> []"
    by (simp add: rows_def)
  have h2: "length (rows 200) = length (labels 200)"
    by (simp add: rows_length labels_length)
  have ones: "mean_squared_error (Circuit plus_one_ops (rows 200) 7) (labels 200) = 0
      \<and> fraction_correct (Circuit plus_one_ops (rows 200) 7) (labels 200) = 1"
    by (rule all_plus_one_metrics)
      (simp_all add: Circuit_def plus_one_ops_def rows_def labels_def list_all_iff)
  have g: "get_params plus_one_ops 7 = 7"
    by (simp add: plus_one_ops_def)
  have L: "Loss plus_one_ops 7 (rows 200) (labels 200) = Inr (Some 0)"
    using Loss_aligned [OF h1 h2, of plus_one_ops 7] ones by simp
  have A: "Accuracy plus_one_ops 7 (rows 200) (labels 200) = Inr (Some 1)"
    using Accuracy_aligned [OF h1 h2, of plus_one_ops 7] ones by simp
  have u: "opt_update plus_one_ops 3
             (jax_grad plus_one_ops (\<lambda>w. Loss plus_one_ops w (rows 200) (labels 200)) 7) 7 = 7"
    by (simp add: plus_one_ops_def)
  from Train_Step_same_snapshot [of plus_one_ops 3 7 "rows 200" "labels 200"]
  have "Train_Step plus_one_ops 3 7 (rows 200) (labels 200) = Inr (Some 0, Some 1, 7)"
    by (simp only: g L A u sum.case)
  with h2 L A g show ?thesis by simp
qed

section \<open>The receiver operating characteristic\<close>

lemma setitem_scalar: "setitem (np_array_scalar v) i u = Inl IndexError"
  by (simp add: setitem_def np_array_scalar_def)

lemma Plot_ROC_loop_scalar:
  "0 < depth \<Longrightarrow> length new_x = depth \<Longrightarrow>
     Plot_ROC_loop ops new_x w [0..<depth] (np_array_scalar v) = Inl IndexError"
  by (simp add: upt_conv_Cons setitem_scalar)

lemma Plot_ROC_raises:
  "Plot_ROC ops report w x y =
     Inl (if length x div BATCH_SIZE = 0 then ZeroDivisionError
          else if 0 < length x mod (length x div BATCH_SIZE) then ValueError
          else IndexError)"
  by (simp add: Plot_ROC_def Let_def np_split_def chunks_of_length Plot_ROC_loop_scalar)

text \<open>
  Claim C10 on a test set of \<open>TEST_SIZE\<close> rows: \<^verbatim>\<open>Plot_ROC\<close> raises \<open>IndexError\<close> at
  the first assignment into \<^verbatim>\<open>ps\<close>, so no curve and no area is computed, even with a
  reporter that would answer an area of \<open>1.0\<close>.
\<close>

theorem Plot_ROC_on_test_set:
  "Plot_ROC plus_one_ops area_one_report 7 (rows TEST_SIZE) (labels TEST_SIZE) = Inl IndexError"
  by (simp add: Plot_ROC_raises rows_length TEST_SIZE_def BATCH_SIZE_def)

section \<open>The training loop with a bound optimizer state\<close>

lemma Train_Step_returns:
  "length f = length t \<Longrightarrow> \<exists>l a s'. Train_Step ops i s f t = Inr (l, a, s')"
  by (simp add: Train_Step_def value_and_grad_def Let_def Loss_def Accuracy_def
      broadcast2_def Circuit_def)

lemma Train_Batches_bound:
  assumes "l_opt_state fr = Some s"
    and "list_all (\<lambda>j. j < length tf \<and> j < length tt \<and> length (tf ! j) = length (tt ! j)) js"
    and "l_step fr + length js \<le> length (l_loss_data fr)"
    and "l_step fr + length js \<le> length (l_acc_data fr)"
  shows "\<exists>fr'. Train_Batches ops tf tt js fr = Inr fr' \<and> l_step fr' = l_step fr + length js"
  using assms
proof (induction js arbitrary: fr s)
  case Nil
  then show ?case by simp
next
  case (Cons j js)
  from Cons.prems(2) have j: "j < length tf" "j < length tt" "length (tf ! j) = length (tt ! j)"
    and js: "list_all (\<lambda>j. j < length tf \<and> j < length tt \<and> length (tf ! j) = length (tt ! j)) js"
    by simp_all
  obtain l a s' where st: "Train_Step ops (l_step fr) s (tf ! j) (tt ! j) = Inr (l, a, s')"
    using Train_Step_returns [OF j(3), of ops "l_step fr" s] by blast
  let ?fr = "fr\<lparr>l_loss_data := (l_loss_data fr)[l_step fr := l],
                 l_acc_data := (l_acc_data fr)[l_step fr := a],
                 l_opt_state := Some s',
                 l_step := l_step fr + 1\<rparr>"
  have "\<exists>fr'. Train_Batches ops tf tt js ?fr = Inr fr' \<and> l_step fr' = l_step ?fr + length js"
    using Cons.prems(3,4) by (intro Cons.IH [of ?fr s'] js) simp_all
  then show ?case
    using Cons.prems(1,3,4) j st by simp
qed

lemma Train_Epochs_report_point:
  assumes "length x = length y"
    and "0 < length x div BATCH_SIZE"
    and "length x mod (length x div BATCH_SIZE) = 0"
    and "l_opt_state fr = Some s"
    and "l_step fr + length x div BATCH_SIZE \<le> length (l_loss_data fr)"
    and "l_step fr + length x div BATCH_SIZE \<le> length (l_acc_data fr)"
    and "(i + 1) mod 100 = 0"
  shows "Train_Epochs ops x y (i # rest) fr wd =
           (Inl NameError, wd\<lparr>np_rng := snd (Batch_and_Shuffle (np_rng wd) x y)\<rparr>)"
proof -
  let ?N = "length x"
  let ?z = "?N div BATCH_SIZE"
  let ?p = "shuffle_perm (np_rng wd) ?N"
  let ?F = "map (\<lambda>i. take N_QUBITS (x ! i @ [y ! i])) ?p"
  let ?L = "map (\<lambda>i. y ! i) ?p"
  have r: "fst (Batch_and_Shuffle (np_rng wd) x y) = Inr (chunks_of ?F ?z, chunks_of ?L ?z, ?z)"
    using Batch_and_Shuffle_eq [OF assms(1), of "np_rng wd"] assms(2,3) by simp
  have "list_all (\<lambda>j. j < length (chunks_of ?F ?z) \<and> j < length (chunks_of ?L ?z)
          \<and> length (chunks_of ?F ?z ! j) = length (chunks_of ?L ?z ! j)) [0..<?z]"
    by (simp add: list_all_iff chunks_of_length chunks_of_nth_length)
  from Train_Batches_bound [OF assms(4) this, of ops] assms(5,6)
  obtain fr' where b: "Train_Batches ops (chunks_of ?F ?z) (chunks_of ?L ?z) [0..<?z] fr = Inr fr'"
    by auto
  show ?thesis
    using r b assms(7)
    by (cases "Batch_and_Shuffle (np_rng wd) x y") (simp add: Train_Epochs.simps)
qed


text \<open>
  Claim C4 on a training set of \<open>TRAIN_SIZE\<close> rows: \<^verbatim>\<open>Train_Model\<close> raises
  \<open>UnboundLocalError\<close> in its first epoch, having printed its two header lines and no
  progress line. And had \<^verbatim>\<open>opt_state\<close> been bound, the reporting point at the end of epoch
  100 would raise \<open>NameError\<close> on the name \<^verbatim>\<open>sgtep\<close>: nothing is printed, nothing is saved
  and the loop does not continue.
\<close>

theorem Train_Model_reports_nothing:
  "fst (Train_Model plus_one_ops (rows TRAIN_SIZE) (labels TRAIN_SIZE) world0) =
     Inl UnboundLocalError
   \<and> stdout (snd (Train_Model plus_one_ops (rows TRAIN_SIZE) (labels TRAIN_SIZE) world0)) =
       [''Training...'', ''Epoch'' @ [CHR 0x09] @ ''Loss'' @ [CHR 0x09] @ ''Accuracy'']
   \<and> fst (Train_Epochs plus_one_ops (rows 200) (labels 200) [99] frame_after_99 world0) =
       Inl NameError
   \<and> stdout (snd (Train_Epochs plus_one_ops (rows 200) (labels 200) [99] frame_after_99 world0)) = []
   \<and> files (snd (Train_Epochs plus_one_ops (rows 200) (labels 200) [99] frame_after_99 world0)) = []"
proof -
  have h: "length (rows TRAIN_SIZE) = length (labels TRAIN_SIZE)"
    by (simp add: rows_length labels_length)
  have a: "Train_Model plus_one_ops (rows TRAIN_SIZE) (labels TRAIN_SIZE) world0 =
     (Inl UnboundLocalError,
      world0\<lparr>stdout := stdout world0 @
            [''Training...'', ''Epoch'' @ [CHR 0x09] @ ''Loss'' @ [CHR 0x09] @ ''Accuracy''],
         np_rng := snd (Batch_and_Shuffle (np_rng world0) (rows TRAIN_SIZE) (labels TRAIN_SIZE))\<rparr>)"
    using Train_Model_raises [OF h, of plus_one_ops world0]
    by (simp add: rows_length TRAIN_SIZE_def BATCH_SIZE_def)
  have h2: "length (rows 200) = length (labels 200)"
    by (simp add: rows_length labels_length)
  have b: "Train_Epochs plus_one_ops (rows 200) (labels 200) [99] frame_after_99 world0 =
           (Inl NameError,
            world0\<lparr>np_rng := snd (Batch_and_Shuffle (np_rng world0) (rows 200) (labels 200))\<rparr>)"
    by (rule Train_Epochs_report_point [OF h2, of frame_after_99 7])
      (simp_all add: rows_length BATCH_SIZE_def frame_after_99_def N_EPOCHS_def)
  show ?thesis
    unfolding a b by (simp add: world0_def)
qed

lemma upt_0_2: "[0..<2] = [0, Suc 0]"
  by (simp add: numeral_2_eq_2)

lemma QuantumModel_train_trace:
  "QuantumModel_train trace_ops 2 2 [rows 1, rows 1] [labels 1, labels 1] [] =
     Inr \<lparr>q_opt_state = [0, 0, 1, 1], q_loss_value = Some (Some 0), q_acc_value = Some (Some 1),
          q_loss_temp = [Some 0, Some 0], q_acc_temp = [Some 1, Some 1],
          q_train_loss_data = [Some 0, Some 0], q_train_acc_data = [Some 1, Some 1],
          q_printed = []\<rparr>"
  by (simp add: QuantumModel_train_def upt_0_2 train_step_def value_and_grad_def loss_fn_def
      acc_fn_def broadcast2_def jnp_mean_def jnp_average_def trace_ops_def rows_def labels_def
      Let_def numeral_2_eq_2)

text \<open>
  Claim C5 on a training set of \<open>TRAIN_SIZE\<close> rows: the claim promises
  \<open>N_EPOCHS * (TRAIN_SIZE div BATCH_SIZE) = 150000\<close> metric records; \<^verbatim>\<open>Train_Model\<close>
  raises \<open>UnboundLocalError\<close> before the first update call and returns no record. In
  \<^verbatim>\<open>test.py\<close>, two epochs of two batches pass the step indices \<open>0, 0, 1, 1\<close> to the four
  update calls and leave two metric records.
\<close>

theorem Train_Model_records_nothing:
  "fst (Train_Model trace_ops (rows TRAIN_SIZE) (labels TRAIN_SIZE) world0) =
     Inl UnboundLocalError
   \<and> N_EPOCHS * (TRAIN_SIZE div BATCH_SIZE) = 150000
   \<and> (case QuantumModel_train trace_ops 2 2 [rows 1, rows 1] [labels 1, labels 1] [] of
        Inl e \<Rightarrow> False
      | Inr fr \<Rightarrow> q_opt_state fr = [0, 0, 1, 1] \<and> length (q_train_loss_data fr) = 2)"
proof -
  have h: "length (rows TRAIN_SIZE) = length (labels TRAIN_SIZE)"
    by (simp add: rows_length labels_length)
  have a: "fst (Train_Model trace_ops (rows TRAIN_SIZE) (labels TRAIN_SIZE) world0) =
     Inl UnboundLocalError"
    using Train_Model_raises [OF h, of trace_ops world0]
    by (simp add: rows_length TRAIN_SIZE_def BATCH_SIZE_def)
  have b: "N_EPOCHS * (TRAIN_SIZE div BATCH_SIZE) = 150000"
    by (simp add: N_EPOCHS_def TRAIN_SIZE_def BATCH_SIZE_def)
  show ?thesis
    unfolding QuantumModel_train_trace using a b by simp
qed

end
